theory Spec2Isabelle
  imports Complex_Main "HOL-Library.AList" "HOL-Library.Char_ord" "HOL-Library.List_Lexorder" "HOL-Library.Product_Lexorder"
begin

section \<open>Regular expressions of the category rules\<close>

datatype atom = Bol | Eol | Lit string | DotStar

primrec first_some :: "('a \<Rightarrow> 'b option) \<Rightarrow> 'a list \<Rightarrow> 'b option" where
  "first_some f [] = None"
| "first_some f (x # xs) = (case f x of Some y \<Rightarrow> Some y | None \<Rightarrow> first_some f xs)"

definition dot_run :: "string \<Rightarrow> nat \<Rightarrow> nat" where
  "dot_run s i = length (takeWhile (\<lambda>c. c \<noteq> CHR 0x0A) (drop i s))"

primrec match_here :: "atom list \<Rightarrow> string \<Rightarrow> nat \<Rightarrow> nat option" where
  "match_here [] s i = Some i"
| "match_here (a # ps) s i =
     (case a of
        Bol \<Rightarrow> (if i = 0 then match_here ps s i else None)
      | Eol \<Rightarrow> (if drop i s = [] \<or> drop i s = [CHR 0x0A] then match_here ps s i else None)
      | Lit l \<Rightarrow> (if take (length l) (drop i s) = l then match_here ps s (i + length l) else None)
      | DotStar \<Rightarrow> first_some (match_here ps s) (rev [i ..< Suc (i + dot_run s i)]))"

definition search_from :: "atom list \<Rightarrow> string \<Rightarrow> nat \<Rightarrow> (nat \<times> nat) option" where
  "search_from p s i =
     first_some (\<lambda>j. map_option (Pair j) (match_here p s j)) [i ..< Suc (length s)]"

definition re_search :: "atom list \<Rightarrow> string \<Rightarrow> bool" where
  "re_search p s = (search_from p s 0 \<noteq> None)"

lemma first_some_SomeD: "first_some f xs = Some y \<Longrightarrow> \<exists>x \<in> set xs. f x = Some y"
  by (induction xs) (auto split: option.splits)

lemma match_here_bounds:
  "match_here p s i = Some e \<Longrightarrow> i \<le> length s \<Longrightarrow> i \<le> e \<and> e \<le> length s"
proof (induction p arbitrary: i e)
  case Nil
  then show ?case by simp
next
  case (Cons a ps)
  show ?case
  proof (cases a)
    case Bol
    with Cons show ?thesis by (auto split: if_splits)
  next
    case Eol
    with Cons show ?thesis by (auto split: if_splits)
  next
    case (Lit l)
    with Cons.prems have t: "take (length l) (drop i s) = l"
      and m: "match_here ps s (i + length l) = Some e"
      by (auto split: if_splits)
    from t have "length (take (length l) (drop i s)) = length l" by simp
    then have "length l \<le> length s - i" by simp
    with Cons.prems(2) have "i + length l \<le> length s" by simp
    with Cons.IH [OF m] show ?thesis by simp
  next
    case DotStar
    with Cons.prems(1)
    have "first_some (match_here ps s) (rev [i ..< Suc (i + dot_run s i)]) = Some e"
      by (simp del: upt_Suc)
    from first_some_SomeD [OF this]
    obtain k where k: "k \<in> set (rev [i ..< Suc (i + dot_run s i)])"
      and m: "match_here ps s k = Some e"
      by blast
    have "dot_run s i \<le> length s - i"
      unfolding dot_run_def by (metis length_drop length_takeWhile_le)
    with k Cons.prems(2) have "i \<le> k" "k \<le> length s" by auto
    with Cons.IH [OF m] show ?thesis by simp
  qed
qed

lemma search_from_bounds:
  "search_from p s i = Some (b, e) \<Longrightarrow> i \<le> b \<and> b \<le> e \<and> e \<le> length s"
proof -
  assume "search_from p s i = Some (b, e)"
  then obtain j where j: "j \<in> set [i ..< Suc (length s)]"
    and m: "map_option (Pair j) (match_here p s j) = Some (b, e)"
    unfolding search_from_def by (auto dest!: first_some_SomeD)
  from m have "j = b" and m': "match_here p s b = Some e" by auto
  with j have "i \<le> b" "b \<le> length s" by auto
  with match_here_bounds [OF m'] show ?thesis by simp
qed

function re_sub_from :: "atom list \<Rightarrow> string \<Rightarrow> string \<Rightarrow> nat \<Rightarrow> string" where
  "re_sub_from p repl s i =
     (case search_from p s i of
        None \<Rightarrow> drop i s
      | Some (b, e) \<Rightarrow>
          take (b - i) (drop i s) @ repl @
          (if e = b then (if b < length s then s ! b # re_sub_from p repl s (Suc b) else [])
           else re_sub_from p repl s e))"
  by pat_completeness auto
termination
  by (relation "measure (\<lambda>(p, repl, s, i). Suc (length s) - i)")
     (auto dest: search_from_bounds)


definition re_sub :: "atom list \<Rightarrow> string \<Rightarrow> string \<Rightarrow> string" where
  "re_sub p repl s = re_sub_from p repl s 0"

section \<open>Category normalizer\<close>

type_synonym rule = "atom list \<times> string"

definition eval_group_rules :: "rule list" where
  "eval_group_rules =
    [([Bol, Lit ''Teacher'', DotStar, Lit ''Announced'', DotStar, Eol], ''Teacher (Announced)''),
     ([Bol, Lit ''Teacher'', DotStar, Lit ''Unannounced'', DotStar, Eol], ''Teacher (Unannounced)''),
     ([Bol, Lit ''Teacher'', DotStar, Lit ''Domain 4'', DotStar, Eol], ''Teacher (Domain 4)''),
     ([Bol, Lit ''Counselor'', DotStar, Lit ''Announced'', DotStar, Eol], ''Counselor (Announced)''),
     ([Bol, Lit ''Counselor'', DotStar, Lit ''Unannounced'', DotStar, Eol], ''Counselor (Unannounced)''),
     ([Bol, Lit ''Counselor'', DotStar, Lit ''Domain 4'', DotStar, Eol], ''Counselor (Domain 4)''),
     ([Bol, Lit ''Nurse'', DotStar, Lit ''Announced'', DotStar, Eol], ''Nurse (Announced)''),
     ([Bol, Lit ''Nurse'', DotStar, Lit ''Unannounced'', DotStar, Eol], ''Nurse (Unannounced)''),
     ([Bol, Lit ''Nurse'', DotStar, Lit ''Domain 4'', DotStar, Eol], ''Nurse (Domain 4)''),
     ([Bol, Lit ''Child Study Team'', DotStar, Eol], ''Child Study Team''),
     ([Bol, Lit ''Related Services'', DotStar, Eol], ''Related Services''),
     ([Bol, Lit ''Instructional Assistant'', DotStar, Eol], ''Instructional Assistant''),
     ([Bol, Lit ''Administrators'', DotStar, Eol], ''Administrator''),
     ([Bol, Lit ''Media'', DotStar, Eol], ''Media Specialist'')]"

definition replace_regex :: "rule list \<Rightarrow> string \<Rightarrow> string" where
  "replace_regex rules s =
     fold (\<lambda>(p, repl) cur. if re_search p s then re_sub p repl cur else cur) rules s"

definition eval_group_label :: "string \<Rightarrow> string" where
  "eval_group_label s = replace_regex eval_group_rules s"

fun first_match_wins :: "rule list \<Rightarrow> string \<Rightarrow> string" where
  "first_match_wins [] s = s"
| "first_match_wins ((p, g) # rs) s = (if re_search p s then g else first_match_wins rs s)"

fun first_match_sub :: "rule list \<Rightarrow> string \<Rightarrow> string" where
  "first_match_sub [] s = s"
| "first_match_sub ((p, g) # rs) s =
     (if re_search p s then re_sub p g s else first_match_sub rs s)"

fun cascade_free :: "rule list \<Rightarrow> bool" where
  "cascade_free [] = True"
| "cascade_free ((p, g) # rs) =
     ((\<forall>(p', g') \<in> set rs. \<not> re_search p' g \<and> \<not> re_search p' (g @ [CHR 0x0A]))
      \<and> cascade_free rs)"

definition anchored :: "atom list \<Rightarrow> bool" where
  "anchored p = (2 \<le> length p \<and> hd p = Bol \<and> last p = Eol)"


section \<open>Tables\<close>

type_synonym timestamp = "nat \<times> nat \<times> nat \<times> nat"

datatype cell = NA | Str string | Num real | Time timestamp

type_synonym row = "(string \<times> cell) list"

record frame =
  columns :: "string list"
  rows :: "(nat \<times> row) list"

datatype error = FileNotFoundError | ValueError | KeyError | TypeError | AttributeError

record pandas =
  read_csv :: "string \<Rightarrow> error + frame"
  to_datetime :: "cell list \<Rightarrow> cell \<Rightarrow> timestamp option"
  to_numeric :: "cell \<Rightarrow> real option"
  str_of :: "string \<Rightarrow> cell \<Rightarrow> string"

definition cell_at :: "row \<Rightarrow> string \<Rightarrow> cell" where
  "cell_at r c = (case map_of r c of Some v \<Rightarrow> v | None \<Rightarrow> NA)"

definition column :: "frame \<Rightarrow> string \<Rightarrow> cell list" where
  "column df c = map (\<lambda>(i, r). cell_at r c) (rows df)"

definition assign :: "frame \<Rightarrow> string \<Rightarrow> (row \<Rightarrow> cell) \<Rightarrow> frame" where
  "assign df c f =
     \<lparr>columns = (if c \<in> set (columns df) then columns df else columns df @ [c]),
      rows = map (\<lambda>(i, r). (i, AList.update c (f r) r)) (rows df)\<rparr>"

definition select_rows :: "frame \<Rightarrow> (row \<Rightarrow> bool) \<Rightarrow> frame" where
  "select_rows df keep = \<lparr>columns = columns df, rows = filter (\<lambda>(i, r). keep r) (rows df)\<rparr>"

definition dropna :: "frame \<Rightarrow> string list \<Rightarrow> frame" where
  "dropna df cols = select_rows df (\<lambda>r. \<forall>c \<in> set cols. cell_at r c \<noteq> NA)"

definition astype_str :: "pandas \<Rightarrow> string \<Rightarrow> cell \<Rightarrow> string" where
  "astype_str pd col c = (case c of Str s \<Rightarrow> s | _ \<Rightarrow> str_of pd col c)"

definition fillna :: "cell \<Rightarrow> cell \<Rightarrow> cell" where
  "fillna c d = (case c of NA \<Rightarrow> d | _ \<Rightarrow> c)"

definition py_isspace :: "char \<Rightarrow> bool" where
  "py_isspace c =
     (c \<in> set [CHR 0x09, CHR 0x0A, CHR 0x0B, CHR 0x0C, CHR 0x0D, CHR 0x1C, CHR 0x1D,
                CHR 0x1E, CHR 0x1F, CHR 0x20, CHR 0x85, CHR 0xA0])"

definition strip :: "string \<Rightarrow> string" where
  "strip s = rev (dropWhile py_isspace (rev (dropWhile py_isspace s)))"

section \<open>Month labels and month-start dates\<close>

definition digit_char :: "nat \<Rightarrow> char" where
  "digit_char d = ''0123456789'' ! d"

definition digit_val :: "char \<Rightarrow> nat option" where
  "digit_val c = map_of (zip ''0123456789'' [0 ..< 10]) c"

definition dec2 :: "nat \<Rightarrow> string" where
  "dec2 n = [digit_char (n div 10 mod 10), digit_char (n mod 10)]"

definition dec4 :: "nat \<Rightarrow> string" where
  "dec4 n = [digit_char (n div 1000 mod 10), digit_char (n div 100 mod 10),
             digit_char (n div 10 mod 10), digit_char (n mod 10)]"

primrec nat_of_dec :: "string \<Rightarrow> nat \<Rightarrow> nat option" where
  "nat_of_dec [] acc = Some acc"
| "nat_of_dec (c # cs) acc =
     (case digit_val c of None \<Rightarrow> None | Some d \<Rightarrow> nat_of_dec cs (10 * acc + d))"

definition period_M_str :: "timestamp \<Rightarrow> string" where
  "period_M_str t = (case t of (y, m, d, ns) \<Rightarrow> dec4 y @ ''-'' @ dec2 m)"

definition days_in_month :: "nat \<Rightarrow> nat \<Rightarrow> nat" where
  "days_in_month y m =
     (if m = 2 then (if y mod 4 = 0 \<and> (y mod 100 \<noteq> 0 \<or> y mod 400 = 0) then 29 else 28)
      else if m \<in> {4, 6, 9, 11} then 30 else 31)"

definition to_datetime_iso :: "string \<Rightarrow> timestamp option" where
  "to_datetime_iso s =
     (if length s = 10 \<and> s ! 4 = CHR ''-'' \<and> s ! 7 = CHR ''-'' then
        (case (nat_of_dec (take 4 s) 0, nat_of_dec (take 2 (drop 5 s)) 0, nat_of_dec (drop 8 s) 0) of
           (Some y, Some m, Some d) \<Rightarrow>
             if 1 \<le> m \<and> m \<le> 12 \<and> 1 \<le> d \<and> d \<le> days_in_month y m then Some (y, m, d, 0)
             else None
         | _ \<Rightarrow> None)
      else None)"

section \<open>Loader\<close>

definition truthy :: "string option \<Rightarrow> bool" where
  "truthy v = (case v of None \<Rightarrow> False | Some s \<Rightarrow> s \<noteq> [])"

definition py_str :: "string option \<Rightarrow> string" where
  "py_str v = (case v of None \<Rightarrow> ''None'' | Some s \<Rightarrow> s)"

definition strip_columns :: "frame \<Rightarrow> frame" where
  "strip_columns df =
     \<lparr>columns = map strip (columns df),
      rows = map (\<lambda>(i, r). (i, map (\<lambda>(k, v). (strip k, v)) r)) (rows df)\<rparr>"

definition coerce_datetime :: "pandas \<Rightarrow> frame \<Rightarrow> string \<Rightarrow> frame" where
  "coerce_datetime pd df c =
     assign df c (\<lambda>r. case to_datetime pd (column df c) (cell_at r c) of
                        Some t \<Rightarrow> Time t | None \<Rightarrow> NA)"

definition coerce_numeric :: "pandas \<Rightarrow> frame \<Rightarrow> string \<Rightarrow> frame" where
  "coerce_numeric pd df c =
     assign df c (\<lambda>r. case to_numeric pd (cell_at r c) of Some x \<Rightarrow> Num x | None \<Rightarrow> NA)"

definition filter_school_year :: "pandas \<Rightarrow> frame \<Rightarrow> string \<Rightarrow> string \<Rightarrow> frame" where
  "filter_school_year pd df schoolyear_col f =
     select_rows df (\<lambda>r. astype_str pd schoolyear_col (cell_at r schoolyear_col) = f)"

definition month_of :: "cell \<Rightarrow> cell" where
  "month_of c = (case c of Time t \<Rightarrow> Str (period_M_str t) | _ \<Rightarrow> Str ''NaT'')"

definition month_start_of :: "cell \<Rightarrow> timestamp option" where
  "month_start_of c = (case c of Str l \<Rightarrow> to_datetime_iso (l @ ''-01'') | _ \<Rightarrow> None)"

definition add_month :: "frame \<Rightarrow> string \<Rightarrow> frame" where
  "add_month df date_col = assign df ''Month'' (\<lambda>r. month_of (cell_at r date_col))"

definition add_month_start :: "frame \<Rightarrow> frame" where
  "add_month_start df =
     assign df ''MonthStart''
       (\<lambda>r. case month_start_of (cell_at r ''Month'') of Some t \<Rightarrow> Time t | None \<Rightarrow> NA)"

definition load_clean ::
  "pandas \<Rightarrow> string \<Rightarrow> string \<Rightarrow> string \<Rightarrow> string \<Rightarrow> string option \<Rightarrow> error + frame" where
  "load_clean pd path date_col score_col schoolyear_col school_year_filter =
     (case read_csv pd path of
        Inl e \<Rightarrow> Inl e
      | Inr tbl \<Rightarrow>
          let df = strip_columns tbl in
          if date_col \<notin> set (columns df) \<or> score_col \<notin> set (columns df) then Inl ValueError
          else
            let df = coerce_datetime pd df date_col;
                df = coerce_numeric pd df score_col;
                df = dropna df [date_col, score_col];
                df = (if truthy school_year_filter \<and> schoolyear_col \<in> set (columns df)
                      then filter_school_year pd df schoolyear_col (py_str school_year_filter)
                      else df)
            in if date_col = score_col then Inl AttributeError
               else
                 let df = add_month df date_col in
                 if \<exists>c \<in> set (column df ''Month''). month_start_of c = None then Inl ValueError
                 else Inr (add_month_start df))"


section \<open>Category normalizer on tables\<close>

definition make_eval_group :: "pandas \<Rightarrow> frame \<Rightarrow> string \<Rightarrow> error + frame" where
  "make_eval_group pd df etype_col =
     (if etype_col \<notin> set (columns df) then Inl KeyError
      else
        let g = df;
            g = assign g ''EvalGroup''
                  (\<lambda>r. Str (replace_regex eval_group_rules
                              (astype_str pd etype_col (cell_at r etype_col))));
            g = assign g ''EvalGroup''
                  (\<lambda>r. fillna (cell_at r ''EvalGroup'')
                              (Str (astype_str pd etype_col (cell_at r etype_col))))
        in Inr g)"

section \<open>Statistics and grouping\<close>

definition mean :: "real list \<Rightarrow> real option" where
  "mean xs = (if xs = [] then None else Some (sum_list xs / real (length xs)))"

definition median :: "real list \<Rightarrow> real option" where
  "median xs =
     (if xs = [] then None
      else let ys = sort xs; n = length ys
           in Some (if odd n then ys ! (n div 2)
                    else (ys ! (n div 2 - 1) + ys ! (n div 2)) / 2))"

definition std :: "real list \<Rightarrow> real option" where
  "std xs =
     (if length xs < 2 then None
      else let m = sum_list xs / real (length xs)
           in Some (sqrt (sum_list (map (\<lambda>x. (x - m)\<^sup>2) xs) / real (length xs - 1))))"

definition series_min :: "real option list \<Rightarrow> real option" where
  "series_min ms =
     (let xs = List.map_filter id ms in if xs = [] then None else Some (Min (set xs)))"

definition series_max :: "real option list \<Rightarrow> real option" where
  "series_max ms =
     (let xs = List.map_filter id ms in if xs = [] then None else Some (Max (set xs)))"

definition cell_key :: "cell \<Rightarrow> nat \<times> real \<times> string \<times> timestamp" where
  "cell_key c =
     (case c of
        Num x \<Rightarrow> (0, x, [], (0, 0, 0, 0))
      | Time t \<Rightarrow> (1, 0, [], t)
      | Str s \<Rightarrow> (2, 0, s, (0, 0, 0, 0))
      | NA \<Rightarrow> (3, 0, [], (0, 0, 0, 0)))"

definition opt_key :: "real option \<Rightarrow> nat \<times> real" where
  "opt_key m = (case m of Some x \<Rightarrow> (0, x) | None \<Rightarrow> (1, 0))"

definition numeric_dtype :: "cell list \<Rightarrow> bool" where
  "numeric_dtype col = (\<forall>c \<in> set col. case c of NA \<Rightarrow> True | Num x \<Rightarrow> True | _ \<Rightarrow> False)"

definition nums :: "cell list \<Rightarrow> real list" where
  "nums col = List.map_filter (\<lambda>c. case c of Num x \<Rightarrow> Some x | _ \<Rightarrow> None) col"

definition groupby :: "frame \<Rightarrow> string \<Rightarrow> string \<Rightarrow> error + (cell \<times> real list) list" where
  "groupby df key val =
     (if key \<notin> set (columns df) \<or> val \<notin> set (columns df) then Inl KeyError
      else if \<not> numeric_dtype (column df val) then Inl TypeError
      else
        let ks = sort_key cell_key (remdups (filter (\<lambda>k. k \<noteq> NA) (column df key)))
        in Inr (map (\<lambda>k. (k, nums (column (select_rows df (\<lambda>r. cell_at r key = k)) val))) ks))"

definition groupby2 ::
  "frame \<Rightarrow> string \<Rightarrow> string \<Rightarrow> string \<Rightarrow> error + ((cell \<times> cell) \<times> real list) list" where
  "groupby2 df key1 key2 val =
     (if key1 \<notin> set (columns df) \<or> key2 \<notin> set (columns df) \<or> val \<notin> set (columns df)
      then Inl KeyError
      else if \<not> numeric_dtype (column df val) then Inl TypeError
      else
        let ks = sort_key (\<lambda>(a, b). (cell_key a, cell_key b))
                   (remdups (filter (\<lambda>(a, b). a \<noteq> NA \<and> b \<noteq> NA)
                               (zip (column df key1) (column df key2))))
        in Inr (map (\<lambda>(a, b).
                  ((a, b), nums (column (select_rows df
                                    (\<lambda>r. cell_at r key1 = a \<and> cell_at r key2 = b)) val))) ks))"

primrec loc :: "('k \<times> 'v) list \<Rightarrow> 'k list \<Rightarrow> error + ('k \<times> 'v) list" where
  "loc tbl [] = Inr []"
| "loc tbl (l # ls) =
     (case map_of tbl l of
        None \<Rightarrow> Inl KeyError
      | Some v \<Rightarrow> (case loc tbl ls of Inl e \<Rightarrow> Inl e | Inr rs \<Rightarrow> Inr ((l, v) # rs)))"

section \<open>Charts and summary tables\<close>

datatype colour = Blue | Orange

datatype artifact =
    HistFig "real option" "real option" "real option" nat "nat list" "real option list"
  | BoxFig "cell list" "real list list" "nat list"
  | TrendFig "(cell \<times> real option) list"
  | BarFig "(cell \<times> real option \<times> nat \<times> colour) list" "real option" "real \<times> real"
  | GroupedCsv "(cell \<times> nat \<times> real option \<times> real option \<times> real option) list"
  | EvaluatorCsv "(cell \<times> real option \<times> nat \<times> real option) list"
  | TypeMeansCsv "(cell \<times> real option) list"
  | MonthlyCsv "(cell \<times> real option) list"

definition OUT_FIGS :: string where "OUT_FIGS = ''figures_evals''"
definition OUT_DATA :: string where "OUT_DATA = ''outputs''"

definition path_join :: "string \<Rightarrow> string \<Rightarrow> string" where
  "path_join d f = d @ ''/'' @ f"

definition hist_range :: "real list \<Rightarrow> real \<times> real" where
  "hist_range xs =
     (if xs = [] then (0, 1)
      else let lo = Min (set xs); hi = Max (set xs)
           in if lo = hi then (lo - 1 / 2, hi + 1 / 2) else (lo, hi))"

definition bin_index :: "real \<Rightarrow> real \<Rightarrow> real \<Rightarrow> nat" where
  "bin_index lo hi x = (let k = nat \<lfloor>(x - lo) / (hi - lo) * 20\<rfloor> in if k = 20 then 19 else k)"

definition hist_counts :: "real list \<Rightarrow> nat list" where
  "hist_counts xs =
     (case hist_range xs of
        (lo, hi) \<Rightarrow> map (\<lambda>b. length (filter (\<lambda>x. bin_index lo hi x = b) xs)) [0 ..< 20])"

definition face_fractions :: "nat list \<Rightarrow> real option list" where
  "face_fractions counts =
     map (\<lambda>c. if Max (set counts) = 0 then None else Some (real c / real (Max (set counts)))) counts"

definition plot_hist :: "frame \<Rightarrow> string \<Rightarrow> string \<Rightarrow> error + (string \<times> artifact) list" where
  "plot_hist df score_col tag =
     (if score_col \<notin> set (columns df) then Inl KeyError
      else if \<not> numeric_dtype (column df score_col) then Inl TypeError
      else
        let s = nums (column df score_col);
            counts = hist_counts s
        in Inr [(path_join OUT_FIGS (''01_hist_scores'' @ tag @ ''.png''),
                 HistFig (mean s) (median s) (std s) (length s) counts (face_fractions counts))])"

definition box_stats ::
  "(cell \<times> real list) list \<Rightarrow> nat \<Rightarrow> (cell \<times> real option \<times> nat) list" where
  "box_stats groups min_n =
     sort_key (\<lambda>(k, med, n). opt_key med)
       (filter (\<lambda>(k, med, n). min_n \<le> n) (map (\<lambda>(k, xs). (k, median xs, length xs)) groups))"

definition plot_box_by_type ::
  "pandas \<Rightarrow> frame \<Rightarrow> string \<Rightarrow> string \<Rightarrow> string \<Rightarrow> nat \<Rightarrow> error + (string \<times> artifact) list" where
  "plot_box_by_type pd df score_col etype_col tag min_n =
     (case make_eval_group pd df etype_col of
        Inl e \<Rightarrow> Inl e
      | Inr gdf \<Rightarrow>
          (case groupby gdf ''EvalGroup'' score_col of
             Inl e \<Rightarrow> Inl e
           | Inr groups \<Rightarrow>
               let stats = box_stats groups min_n;
                   order = map fst stats;
                   data = map (\<lambda>label.
                            nums (column (select_rows gdf (\<lambda>r. cell_at r ''EvalGroup'' = label))
                                    score_col)) order;
                   ns = map (\<lambda>(k, med, n). n) stats
               in (case loc (map (\<lambda>(k, xs). (k, length xs, mean xs, median xs, std xs)) groups)
                          order of
                     Inl e \<Rightarrow> Inl e
                   | Inr summary \<Rightarrow>
                       Inr [(path_join OUT_FIGS (''02_box_by_type'' @ tag @ ''.png''),
                             BoxFig order data ns),
                            (path_join OUT_DATA (''type_means_grouped'' @ tag @ ''.csv''),
                             GroupedCsv summary)])))"

definition parses :: "pandas \<Rightarrow> frame \<Rightarrow> string \<Rightarrow> string \<Rightarrow> row \<Rightarrow> bool" where
  "parses pd df date_col score_col r =
     (to_datetime pd (column df date_col) (cell_at r date_col) \<noteq> None
      \<and> to_numeric pd (cell_at r score_col) \<noteq> None)"

definition monthly_means :: "frame \<Rightarrow> string \<Rightarrow> error + (cell \<times> cell \<times> real option) list" where
  "monthly_means df score_col =
     (case groupby2 df ''Month'' ''MonthStart'' score_col of
        Inl e \<Rightarrow> Inl e
      | Inr groups \<Rightarrow>
          Inr (sort_key (\<lambda>(m, ms, x). cell_key ms)
                 (map (\<lambda>((m, ms), xs). (m, ms, mean xs)) groups)))"

definition plot_monthly_trend ::
  "frame \<Rightarrow> string \<Rightarrow> string \<Rightarrow> string \<Rightarrow> error + (string \<times> artifact) list" where
  "plot_monthly_trend df date_col score_col tag =
     (case monthly_means df score_col of
        Inl e \<Rightarrow> Inl e
      | Inr monthly \<Rightarrow>
          Inr [(path_join OUT_FIGS (''03_monthly_trend'' @ tag @ ''.png''),
                TrendFig (map (\<lambda>(m, ms, x). (ms, x)) monthly))])"

definition py_min :: "real \<Rightarrow> real option \<Rightarrow> real" where
  "py_min a b = (case b of None \<Rightarrow> a | Some y \<Rightarrow> if y < a then y else a)"

definition py_max :: "real \<Rightarrow> real option \<Rightarrow> real" where
  "py_max a b = (case b of None \<Rightarrow> a | Some y \<Rightarrow> if a < y then y else a)"

definition observer_ylim :: "real option list \<Rightarrow> real \<times> real" where
  "observer_ylim means =
     (py_min 3 (map_option (\<lambda>m. m - 1 / 10) (series_min means)),
      py_min (81 / 20) (Some (py_max 4 (map_option (\<lambda>m. m + 1 / 10) (series_max means)))))"

definition bar_colour :: "real option \<Rightarrow> real option \<Rightarrow> colour" where
  "bar_colour m overall =
     (case (m, overall) of (Some a, Some b) \<Rightarrow> if a < b then Blue else Orange | _ \<Rightarrow> Orange)"

definition observer_stats ::
  "frame \<Rightarrow> string \<Rightarrow> string \<Rightarrow> nat \<Rightarrow> error + (cell \<times> real option \<times> nat \<times> real option) list" where
  "observer_stats df observer_col score_col min_n =
     (case groupby df observer_col score_col of
        Inl e \<Rightarrow> Inl e
      | Inr groups \<Rightarrow>
          Inr (sort_key (\<lambda>(k, m, n, sd). opt_key m)
                 (filter (\<lambda>(k, m, n, sd). min_n \<le> n)
                    (map (\<lambda>(k, xs). (k, mean xs, length xs, std xs)) groups))))"

definition plot_observer_bar ::
  "frame \<Rightarrow> string \<Rightarrow> string \<Rightarrow> string \<Rightarrow> nat \<Rightarrow> error + (string \<times> artifact) list" where
  "plot_observer_bar df observer_col score_col tag min_n =
     (case observer_stats df observer_col score_col min_n of
        Inl e \<Rightarrow> Inl e
      | Inr stats \<Rightarrow>
          let overall_mean = mean (nums (column df score_col));
              bars = map (\<lambda>(k, m, n, sd). (k, m, n, bar_colour m overall_mean)) stats
          in Inr [(path_join OUT_FIGS (''05_observer_mean_bar'' @ tag @ ''.png''),
                   BarFig bars overall_mean (observer_ylim (map (\<lambda>(k, m, n, sd). m) stats))),
                  (path_join OUT_DATA (''evaluator_stats'' @ tag @ ''.csv''),
                   EvaluatorCsv stats)])"

section \<open>Pipeline\<close>

record args =
  arg_csv :: string
  arg_school_year :: "string option"
  arg_date_col :: string
  arg_score_col :: string
  arg_schoolyear_col :: string
  arg_observer_col :: string
  arg_observee_col :: string
  arg_etype_col :: string

record fs =
  dirs :: "string list"
  files :: "(string \<times> artifact) list"

definition ensure_dirs :: "fs \<Rightarrow> fs" where
  "ensure_dirs st = st\<lparr>dirs := List.insert OUT_DATA (List.insert OUT_FIGS (dirs st))\<rparr>"

definition write_all :: "(string \<times> artifact) list \<Rightarrow> fs \<Rightarrow> fs" where
  "write_all ws st = st\<lparr>files := fold (\<lambda>(p, a). AList.update p a) ws (files st)\<rparr>"

definition tag_of :: "string option \<Rightarrow> string" where
  "tag_of sy =
     (if truthy sy
      then ''_'' @ map (\<lambda>c. if c = CHR '' '' then CHR ''_'' else c)
                     (map (\<lambda>c. if c = CHR ''/'' then CHR ''-'' else c) (py_str sy))
      else [])"

definition type_means :: "frame \<Rightarrow> string \<Rightarrow> string \<Rightarrow> error + (cell \<times> real option) list" where
  "type_means df etype_col score_col =
     (case groupby df etype_col score_col of
        Inl e \<Rightarrow> Inl e
      | Inr groups \<Rightarrow> Inr (map (\<lambda>(k, xs). (k, mean xs)) groups))"

definition monthly_means_csv :: "frame \<Rightarrow> string \<Rightarrow> error + (cell \<times> real option) list" where
  "monthly_means_csv df score_col =
     (case monthly_means df score_col of
        Inl e \<Rightarrow> Inl e
      | Inr monthly \<Rightarrow> Inr (map (\<lambda>(m, ms, x). (m, x)) monthly))"

definition main :: "pandas \<Rightarrow> args \<Rightarrow> fs \<Rightarrow> fs \<times> (error + unit)" where
  "main pd a st0 =
     (let st = ensure_dirs st0 in
      case load_clean pd (arg_csv a) (arg_date_col a) (arg_score_col a) (arg_schoolyear_col a) (arg_school_year a) of
        Inl e \<Rightarrow> (st, Inl e)
      | Inr d \<Rightarrow>
          let tag = tag_of (arg_school_year a) in
          (case plot_hist d (arg_score_col a) tag of
             Inl e \<Rightarrow> (st, Inl e)
           | Inr w1 \<Rightarrow>
               let st = write_all w1 st in
               (case plot_box_by_type pd d (arg_score_col a) (arg_etype_col a) tag 10 of
                  Inl e \<Rightarrow> (st, Inl e)
                | Inr w2 \<Rightarrow>
                    let st = write_all w2 st in
                    (case plot_monthly_trend d (arg_date_col a) (arg_score_col a) tag of
                       Inl e \<Rightarrow> (st, Inl e)
                     | Inr w3 \<Rightarrow>
                         let st = write_all w3 st in
                         (case plot_observer_bar d (arg_observer_col a) (arg_score_col a) tag 5 of
                            Inl e \<Rightarrow> (st, Inl e)
                          | Inr w4 \<Rightarrow>
                              let st = write_all w4 st in
                              (case type_means d (arg_etype_col a) (arg_score_col a) of
                                 Inl e \<Rightarrow> (st, Inl e)
                               | Inr tm \<Rightarrow>
                                   let st = write_all
                                              [(path_join OUT_DATA (''type_means'' @ tag @ ''.csv''),
                                                TypeMeansCsv tm)] st in
                                   (case monthly_means_csv d (arg_score_col a) of
                                      Inl e \<Rightarrow> (st, Inl e)
                                    | Inr mm \<Rightarrow>
                                        (write_all
                                           [(path_join OUT_DATA (''monthly_means'' @ tag @ ''.csv''),
                                             MonthlyCsv mm)] st,
                                         Inr ()))))))))"


section \<open>Stages of the loader, named for the statements\<close>

definition coerce_row :: "pandas \<Rightarrow> frame \<Rightarrow> string \<Rightarrow> string \<Rightarrow> row \<Rightarrow> row" where
  "coerce_row pd df dc sc r =
     (let r1 = AList.update dc (case to_datetime pd (column df dc) (cell_at r dc) of
                                  Some t \<Rightarrow> Time t | None \<Rightarrow> NA) r
      in AList.update sc (case to_numeric pd (cell_at r1 sc) of Some x \<Rightarrow> Num x | None \<Rightarrow> NA) r1)"

definition parsed_frame :: "pandas \<Rightarrow> frame \<Rightarrow> string \<Rightarrow> string \<Rightarrow> frame" where
  "parsed_frame pd tbl dc sc =
     dropna (coerce_numeric pd (coerce_datetime pd (strip_columns tbl) dc) sc) [dc, sc]"

definition school_year_step :: "pandas \<Rightarrow> frame \<Rightarrow> string \<Rightarrow> string option \<Rightarrow> frame" where
  "school_year_step pd df yc flt =
     (if truthy flt \<and> yc \<in> set (columns df) then filter_school_year pd df yc (py_str flt)
      else df)"

definition derive_row :: "string \<Rightarrow> row \<Rightarrow> row" where
  "derive_row dc r =
     (let r1 = AList.update ''Month'' (month_of (cell_at r dc)) r
      in AList.update ''MonthStart''
           (case month_start_of (cell_at r1 ''Month'') of Some t \<Rightarrow> Time t | None \<Rightarrow> NA) r1)"

section \<open>Defaults and a small environment for worked examples\<close>

definition DATE_COL :: string where "DATE_COL = ''ObservationDateTime''"
definition SCORE_COL :: string where "SCORE_COL = ''ObservationScore''"
definition SCHOOLYEAR_COL :: string where "SCHOOLYEAR_COL = ''SchoolYear''"
definition OBSERVER_COL :: string where "OBSERVER_COL = ''ObserverLastFirstName''"
definition OBSERVEE_COL :: string where "OBSERVEE_COL = ''ObserveeLastFirstName''"
definition ETYPE_COL :: string where "ETYPE_COL = ''EvaluationType''"

definition demo_pandas :: "frame \<Rightarrow> pandas" where
  "demo_pandas tbl =
     \<lparr>read_csv = (\<lambda>path. Inr tbl),
      to_datetime = (\<lambda>col c. case c of Str s \<Rightarrow> to_datetime_iso s | _ \<Rightarrow> None),
      to_numeric = (\<lambda>c. case c of Num x \<Rightarrow> Some x | _ \<Rightarrow> None),
      str_of = (\<lambda>col c. ''nan'')\<rparr>"

definition demo_parse :: frame where
  "demo_parse =
     \<lparr>columns = ['' ObservationDateTime'', ''ObservationScore ''],
      rows = [(0, [('' ObservationDateTime'', Str ''2023-11-05''), (''ObservationScore '', Num 4)]),
              (1, [('' ObservationDateTime'', Str ''not a date''), (''ObservationScore '', Num 3)]),
              (2, [('' ObservationDateTime'', Str ''2023-12-01''), (''ObservationScore '', Str ''n/a'')])]\<rparr>"

definition demo_years :: frame where
  "demo_years =
     \<lparr>columns = [''ObservationDateTime'', ''ObservationScore'', ''SchoolYear''],
      rows = [(0, [(''ObservationDateTime'', Str ''2023-11-05''), (''ObservationScore'', Num 4),
                   (''SchoolYear'', Str ''2023-24'')]),
              (1, [(''ObservationDateTime'', Str ''2023-01-10''), (''ObservationScore'', Num 3),
                   (''SchoolYear'', Str ''2022-23'')])]\<rparr>"

definition CSV_PATH :: string where "CSV_PATH = ''EVALUATION_SCORES.csv''"

definition default_args :: args where
  "default_args =
     \<lparr>arg_csv = CSV_PATH, arg_school_year = None, arg_date_col = DATE_COL,
      arg_score_col = SCORE_COL, arg_schoolyear_col = SCHOOLYEAR_COL,
      arg_observer_col = OBSERVER_COL, arg_observee_col = OBSERVEE_COL,
      arg_etype_col = ETYPE_COL\<rparr>"

definition demo_no_score :: frame where
  "demo_no_score =
     \<lparr>columns = [''ObservationDateTime'', ''Score''],
      rows = [(0, [(''ObservationDateTime'', Str ''2023-11-05''), (''Score'', Num 4)])]\<rparr>"

definition group_of :: "pandas \<Rightarrow> string \<Rightarrow> row \<Rightarrow> cell" where
  "group_of pd et r = Str (eval_group_label (astype_str pd et (cell_at r et)))"

definition demo_groups :: frame where
  "demo_groups =
     \<lparr>columns = [''ObservationDateTime'', ''ObservationScore'', ''EvaluationType'', ''EvalGroup''],
      rows = [(0, [(''ObservationDateTime'', Str ''2023-11-05''), (''ObservationScore'', Num 4),
                   (''EvaluationType'', Str ''Teacher Unannounced Observation Domain 2''),
                   (''EvalGroup'', Str ''legacy'')]),
              (1, [(''ObservationDateTime'', Str ''2023-12-10''), (''ObservationScore'', Num 3),
                   (''EvaluationType'', Str ''Volunteer Review''),
                   (''EvalGroup'', Str ''legacy'')])]\<rparr>"

definition demo_types :: frame where
  "demo_types =
     \<lparr>columns = [''ObservationScore'', ''EvaluationType''],
      rows = [(0, [(''ObservationScore'', Num 4),
                   (''EvaluationType'', Str ''Teacher Unannounced Observation Domain 2'')]),
              (1, [(''ObservationScore'', Num 3), (''EvaluationType'', Str ''Volunteer Review'')])]\<rparr>"

section \<open>Properties of the regular expressions\<close>

declare re_sub_from.simps [simp del]

lemma first_some_None: "(\<And>x. x \<in> set xs \<Longrightarrow> f x = None) \<Longrightarrow> first_some f xs = None"
  by (induction xs) auto

lemma search_from_Bol:
  "search_from (Bol # q) s i = (if i = 0 then map_option (Pair 0) (match_here q s 0) else None)"
proof (cases "i = 0")
  case True
  have "[0 ..< Suc (length s)] = 0 # [Suc 0 ..< Suc (length s)]"
    by (rule upt_conv_Cons) simp
  moreover have "first_some (\<lambda>j. map_option (Pair j) (match_here (Bol # q) s j))
                   [Suc 0 ..< Suc (length s)] = None"
    by (rule first_some_None) auto
  ultimately show ?thesis
    using True unfolding search_from_def by (simp del: upt_Suc split: option.splits)
next
  case False
  have "first_some (\<lambda>j. map_option (Pair j) (match_here (Bol # q) s j))
          [i ..< Suc (length s)] = None"
    by (rule first_some_None) (use False in auto)
  with False show ?thesis unfolding search_from_def by simp
qed

lemma re_search_Bol: "re_search (Bol # q) s = (match_here q s 0 \<noteq> None)"
  by (simp add: re_search_def search_from_Bol)

lemma re_sub_Bol:
  "re_sub (Bol # q) repl s =
     (case match_here q s 0 of None \<Rightarrow> s | Some e \<Rightarrow> repl @ drop e s)"
proof (cases "match_here q s 0")
  case None
  then show ?thesis
    by (simp add: re_sub_def re_sub_from.simps [of _ _ _ 0] search_from_Bol)
next
  case (Some e)
  have rest: "re_sub_from (Bol # q) repl s j = drop j s" if "0 < j" for j
    using that by (simp add: re_sub_from.simps [of _ _ _ j] search_from_Bol)
  show ?thesis
  proof (cases "e = 0")
    case True
    with Some show ?thesis
      by (simp add: re_sub_def re_sub_from.simps [of _ _ _ 0] search_from_Bol rest
          Cons_nth_drop_Suc)
  next
    case False
    with Some show ?thesis
      by (simp add: re_sub_def re_sub_from.simps [of _ _ _ 0] search_from_Bol rest)
  qed
qed

lemma match_here_Eol:
  "match_here (q @ [Eol]) s i = Some e \<Longrightarrow> drop e s = [] \<or> drop e s = [CHR 0x0A]"
proof (induction q arbitrary: i)
  case Nil
  then show ?case by (auto split: if_splits)
next
  case (Cons a q)
  show ?case
  proof (cases a)
    case DotStar
    with Cons.prems
    have "first_some (match_here (q @ [Eol]) s) (rev [i ..< Suc (i + dot_run s i)]) = Some e"
      by (simp del: upt_Suc)
    from first_some_SomeD [OF this] obtain k where "match_here (q @ [Eol]) s k = Some e"
      by blast
    then show ?thesis by (rule Cons.IH)
  qed (use Cons in \<open>auto split: if_splits\<close>)
qed

lemma anchoredE:
  assumes "anchored p"
  obtains q where "p = Bol # q @ [Eol]"
proof -
  from assms have l: "2 \<le> length p" and h: "hd p = Bol" and e: "last p = Eol"
    by (auto simp: anchored_def)
  from l obtain a r where p: "p = a # r"
    by (cases p) auto
  with l have r: "r \<noteq> []" by auto
  from r e p have "r = butlast r @ [Eol]"
    by (metis append_butlast_last_id last_ConsR)
  with p h have "p = Bol # butlast r @ [Eol]" by simp
  then show thesis by (rule that)
qed

lemma re_sub_anchored_no_match:
  "anchored p \<Longrightarrow> \<not> re_search p s \<Longrightarrow> re_sub p g s = s"
  by (erule anchoredE) (simp add: re_search_Bol re_sub_Bol)

lemma re_sub_anchored_match:
  assumes "anchored p" "re_search p s"
  shows "re_sub p g s = g \<or> re_sub p g s = g @ [CHR 0x0A]"
    and "s = [] \<or> last s \<noteq> CHR 0x0A \<Longrightarrow> re_sub p g s = g"
proof -
  from assms(1) obtain q where p: "p = Bol # q @ [Eol]" by (rule anchoredE)
  with assms(2) obtain e where e: "match_here (q @ [Eol]) s 0 = Some e"
    by (auto simp: re_search_Bol)
  then have s: "re_sub p g s = g @ drop e s" by (simp add: p re_sub_Bol)
  from match_here_Eol [OF e] have d: "drop e s = [] \<or> drop e s = [CHR 0x0A]" .
  with s show "re_sub p g s = g \<or> re_sub p g s = g @ [CHR 0x0A]" by auto
  show "re_sub p g s = g" if "s = [] \<or> last s \<noteq> CHR 0x0A"
  proof -
    have "drop e s \<noteq> [CHR 0x0A]"
    proof
      assume lf: "drop e s = [CHR 0x0A]"
      then have "e < length s" by (cases "e < length s") auto
      then have "last (drop e s) = last s" and "s \<noteq> []" by (auto simp: last_drop)
      with lf that show False by simp
    qed
    with d have "drop e s = []" by simp
    with s show ?thesis by simp
  qed
qed

section \<open>Properties of the category normalizer\<close>

lemma anchored_rules: "\<forall>r \<in> set eval_group_rules. anchored (fst r)"
  by (simp add: eval_group_rules_def anchored_def)

lemma cascade_free_rules: "cascade_free eval_group_rules"
  by code_simp

lemma fold_replace_stable:
  assumes "\<forall>(p, g) \<in> set rs. re_search p s \<longrightarrow> re_sub p g cur = cur"
  shows "fold (\<lambda>(p, repl) cur. if re_search p s then re_sub p repl cur else cur) rs cur = cur"
  using assms by (induction rs) auto

lemma replace_regex_Cons:
  "replace_regex ((p, g) # rs) s =
     fold (\<lambda>(p, repl) cur. if re_search p s then re_sub p repl cur else cur) rs
       (if re_search p s then re_sub p g s else s)"
  by (simp add: replace_regex_def)

lemma replace_regex_first_match:
  assumes "\<forall>r \<in> set rs. anchored (fst r)" "cascade_free rs"
  shows "replace_regex rs s = first_match_sub rs s"
  using assms
proof (induction rs)
  case Nil
  then show ?case by (simp add: replace_regex_def)
next
  case (Cons r rs)
  obtain p g where r: "r = (p, g)" by (cases r)
  show ?case
  proof (cases "re_search p s")
    case True
    let ?cur = "re_sub p g s"
    from Cons.prems r have a: "anchored p" by simp
    from re_sub_anchored_match(1) [OF a True, of g]
    have cur: "?cur = g \<or> ?cur = g @ [CHR 0x0A]" .
    have "\<forall>(p', g') \<in> set rs. re_search p' s \<longrightarrow> re_sub p' g' ?cur = ?cur"
    proof (clarify)
      fix p' g' assume in_rs: "(p', g') \<in> set rs"
      with Cons.prems(1) have a': "anchored p'" by force
      from Cons.prems(2) r in_rs
      have "\<not> re_search p' g" "\<not> re_search p' (g @ [CHR 0x0A])" by auto
      with cur have "\<not> re_search p' ?cur" by auto
      with a' show "re_sub p' g' ?cur = ?cur" by (rule re_sub_anchored_no_match)
    qed
    from fold_replace_stable [OF this] True r show ?thesis
      by (simp add: replace_regex_Cons)
  next
    case False
    from Cons have "replace_regex rs s = first_match_sub rs s" by (simp add: r)
    with False r show ?thesis
      by (simp add: replace_regex_Cons replace_regex_def)
  qed
qed

lemma first_match_sub_wins:
  assumes "\<forall>r \<in> set rs. anchored (fst r)" and "s = [] \<or> last s \<noteq> CHR 0x0A"
  shows "first_match_sub rs s = first_match_wins rs s"
  using assms(1)
proof (induction rs)
  case Nil
  show ?case by simp
next
  case (Cons r rs)
  obtain p g where r: "r = (p, g)" by (cases r)
  from Cons.prems r have a: "anchored p" by simp
  from Cons have ih: "first_match_sub rs s = first_match_wins rs s" by simp
  show ?case
  proof (cases "re_search p s")
    case True
    from re_sub_anchored_match(2) [OF a True assms(2)] True r show ?thesis by simp
  next
    case False
    with ih r show ?thesis by simp
  qed
qed

lemma replace_regex_no_match:
  "\<forall>r \<in> set rs. \<not> re_search (fst r) s \<Longrightarrow> replace_regex rs s = s"
  unfolding replace_regex_def by (induction rs) auto


section \<open>Properties of tables and of the loader\<close>

lemma cell_at_update [simp]:
  "cell_at (AList.update c v r) c' = (if c' = c then v else cell_at r c')"
  by (simp add: cell_at_def update_conv')

lemma rows_assign [simp]:
  "rows (assign df c f) = map (\<lambda>(i, r). (i, AList.update c (f r) r)) (rows df)"
  by (simp add: assign_def)

lemma columns_assign [simp]:
  "columns (assign df c f) = (if c \<in> set (columns df) then columns df else columns df @ [c])"
  by (simp add: assign_def)

lemma rows_select_rows [simp]:
  "rows (select_rows df keep) = filter (\<lambda>(i, r). keep r) (rows df)"
  by (simp add: select_rows_def)

lemma columns_select_rows [simp]: "columns (select_rows df keep) = columns df"
  by (simp add: select_rows_def)

lemma column_assign:
  "column (assign df c f) c' = (if c' = c then map (\<lambda>(i, r). f r) (rows df) else column df c')"
  by (auto simp: column_def split_def)

lemma select_rows_assign:
  assumes "\<And>r. keep (AList.update c (f r) r) = keep r"
  shows "select_rows (assign df c f) keep = assign (select_rows df keep) c f"
  using assms by (simp add: select_rows_def assign_def filter_map comp_def split_def)

lemma rows_coerced:
  "rows (coerce_numeric pd (coerce_datetime pd df dc) sc)
     = map (\<lambda>(i, r). (i, coerce_row pd df dc sc r)) (rows df)"
  by (simp add: coerce_numeric_def coerce_datetime_def coerce_row_def split_def comp_def Let_def)


lemma load_clean_unfold:
  assumes "read_csv pd path = Inr tbl"
  shows "load_clean pd path dc sc yc flt =
     (if dc \<notin> set (columns (strip_columns tbl)) \<or> sc \<notin> set (columns (strip_columns tbl))
      then Inl ValueError
      else if dc = sc then Inl AttributeError
      else if \<exists>c \<in> set (column (add_month (school_year_step pd (parsed_frame pd tbl dc sc) yc flt) dc)
                          ''Month''). month_start_of c = None
      then Inl ValueError
      else Inr (add_month_start
                  (add_month (school_year_step pd (parsed_frame pd tbl dc sc) yc flt) dc)))"
  by (simp only: load_clean_def Let_def parsed_frame_def school_year_step_def assms sum.case)

lemma columns_parsed_frame:
  "dc \<in> set (columns (strip_columns tbl)) \<Longrightarrow> sc \<in> set (columns (strip_columns tbl)) \<Longrightarrow>
   columns (parsed_frame pd tbl dc sc) = columns (strip_columns tbl)"
  by (simp add: parsed_frame_def dropna_def coerce_numeric_def coerce_datetime_def)

lemma rows_parsed_frame:
  "rows (parsed_frame pd tbl dc sc) =
     filter (\<lambda>(i, r). cell_at r dc \<noteq> NA \<and> cell_at r sc \<noteq> NA)
       (map (\<lambda>(i, r). (i, coerce_row pd (strip_columns tbl) dc sc r)) (rows (strip_columns tbl)))"
  by (simp add: parsed_frame_def dropna_def rows_coerced)

lemma coerce_row_cells:
  assumes "dc \<noteq> sc"
  shows "cell_at (coerce_row pd df dc sc r) dc =
           (case to_datetime pd (column df dc) (cell_at r dc) of Some t \<Rightarrow> Time t | None \<Rightarrow> NA)"
    and "cell_at (coerce_row pd df dc sc r) sc =
           (case to_numeric pd (cell_at r sc) of Some x \<Rightarrow> Num x | None \<Rightarrow> NA)"
    and "c \<noteq> dc \<Longrightarrow> c \<noteq> sc \<Longrightarrow> cell_at (coerce_row pd df dc sc r) c = cell_at r c"
  using assms by (auto simp: coerce_row_def Let_def)

lemma rows_school_year_step:
  "set (rows (school_year_step pd df yc flt)) \<subseteq> set (rows df)"
  by (auto simp: school_year_step_def filter_school_year_def)

lemma rows_add_month_start:
  "rows (add_month_start (add_month df dc)) = map (\<lambda>(i, r). (i, derive_row dc r)) (rows df)"
  by (simp add: add_month_start_def add_month_def derive_row_def split_def comp_def Let_def)

lemma cell_at_derive_row:
  "c \<noteq> ''Month'' \<Longrightarrow> c \<noteq> ''MonthStart'' \<Longrightarrow> cell_at (derive_row dc r) c = cell_at r c"
  by (simp add: derive_row_def Let_def)

lemma load_clean_row_origin:
  assumes rd: "read_csv pd path = Inr tbl"
    and lc: "load_clean pd path dc sc yc flt = Inr d"
    and ir: "(i, r) \<in> set (rows d)"
  shows "\<exists>r0 t x. (i, r0) \<in> set (rows (strip_columns tbl))
           \<and> to_datetime pd (column (strip_columns tbl) dc) (cell_at r0 dc) = Some t
           \<and> to_numeric pd (cell_at r0 sc) = Some x
           \<and> (dc \<notin> {''Month'', ''MonthStart''} \<longrightarrow> cell_at r dc = Time t)
           \<and> (sc \<notin> {''Month'', ''MonthStart''} \<longrightarrow> cell_at r sc = Num x)"
proof -
  let ?df0 = "strip_columns tbl"
  let ?df' = "school_year_step pd (parsed_frame pd tbl dc sc) yc flt"
  from lc have neq: "dc \<noteq> sc" and d: "d = add_month_start (add_month ?df' dc)"
    unfolding load_clean_unfold [OF rd] by (auto split: if_splits)
  from ir d obtain r1 where r1: "(i, r1) \<in> set (rows ?df')" and r: "r = derive_row dc r1"
    by (auto simp: rows_add_month_start)
  from r1 rows_school_year_step have "(i, r1) \<in> set (rows (parsed_frame pd tbl dc sc))"
    by blast
  then obtain r0 where r0: "(i, r0) \<in> set (rows ?df0)"
    and c: "r1 = coerce_row pd ?df0 dc sc r0"
    and na: "cell_at r1 dc \<noteq> NA" "cell_at r1 sc \<noteq> NA"
    by (auto simp: rows_parsed_frame)
  from na(1) c obtain t where t: "to_datetime pd (column ?df0 dc) (cell_at r0 dc) = Some t"
    by (auto simp: coerce_row_cells(1) [OF neq] split: option.splits)
  from na(2) c obtain x where x: "to_numeric pd (cell_at r0 sc) = Some x"
    by (auto simp: coerce_row_cells(2) [OF neq] split: option.splits)
  from t c have "cell_at r1 dc = Time t" by (simp add: coerce_row_cells(1) [OF neq])
  moreover from x c have "cell_at r1 sc = Num x" by (simp add: coerce_row_cells(2) [OF neq])
  ultimately show ?thesis using r0 t x r
    by (intro exI [of _ r0] exI [of _ t] exI [of _ x]) (simp add: cell_at_derive_row)
qed

lemma fst_rows_strip_columns: "map fst (rows (strip_columns tbl)) = map fst (rows tbl)"
  by (simp add: strip_columns_def comp_def split_def)

lemma load_clean_read_csv:
  assumes "load_clean pd path dc sc yc flt = Inr d"
  obtains tbl where "read_csv pd path = Inr tbl"
  using assms by (cases "read_csv pd path") (auto simp: load_clean_def)

lemma column_select_rows_subset:
  "set (column (select_rows df keep) c) \<subseteq> set (column df c)"
  by (auto simp: column_def)

lemma column_add_month:
  "column (add_month df dc) ''Month'' = map (\<lambda>(i, r). month_of (cell_at r dc)) (rows df)"
  by (simp add: add_month_def column_assign)

lemma columns_derived:
  "set (columns (add_month_start (add_month df dc))) = set (columns df) \<union> {''Month'', ''MonthStart''}"
  by (auto simp: add_month_start_def add_month_def)

lemma select_rows_derived:
  assumes "yc \<noteq> ''Month''" "yc \<noteq> ''MonthStart''"
  shows "add_month_start (add_month (select_rows df (\<lambda>r. P (cell_at r yc))) dc)
           = select_rows (add_month_start (add_month df dc)) (\<lambda>r. P (cell_at r yc))"
  using assms by (simp add: add_month_start_def add_month_def select_rows_assign)

lemma make_eval_group_Inr:
  assumes "et \<in> set (columns d)"
  shows "make_eval_group pd d et =
     Inr \<lparr>columns = (if ''EvalGroup'' \<in> set (columns d) then columns d
                       else columns d @ [''EvalGroup'']),
           rows = map (\<lambda>(i, r). (i, AList.update ''EvalGroup'' (group_of pd et r) r)) (rows d)\<rparr>"
  using assms
  by (simp add: make_eval_group_def Let_def assign_def fillna_def group_of_def eval_group_label_def
      split_def comp_def)

lemma update_absent: "k \<notin> fst ` set al \<Longrightarrow> AList.update k v al = al @ [(k, v)]"
  by (induction al) auto

section \<open>Claims about the loader\<close>

text \<open>
  C5.  Every row of the cleaned table comes from an input row (same index) whose timestamp
  and score both parsed, and carries the parsed values; an input row for which either value
  fails to parse has its index absent from the cleaned table.
\<close>

theorem load_clean_keeps_parsed_rows_only:
  assumes "read_csv pd path = Inr tbl" and "distinct (map fst (rows tbl))"
    and "load_clean pd path dc sc yc flt = Inr d"
  shows "(\<forall>(i, r) \<in> set (rows d).
            \<exists>r0 t x. (i, r0) \<in> set (rows (strip_columns tbl))
              \<and> to_datetime pd (column (strip_columns tbl) dc) (cell_at r0 dc) = Some t
              \<and> to_numeric pd (cell_at r0 sc) = Some x
              \<and> (dc \<notin> {''Month'', ''MonthStart''} \<longrightarrow> cell_at r dc = Time t)
              \<and> (sc \<notin> {''Month'', ''MonthStart''} \<longrightarrow> cell_at r sc = Num x))
       \<and> (\<forall>(i, r0) \<in> set (rows (strip_columns tbl)).
            \<not> parses pd (strip_columns tbl) dc sc r0 \<longrightarrow> i \<notin> fst ` set (rows d))"
proof (intro conjI ballI)
  fix p assume "p \<in> set (rows d)"
  with load_clean_row_origin [OF assms(1,3), of "fst p" "snd p"]
  show "case p of (i, r) \<Rightarrow>
            \<exists>r0 t x. (i, r0) \<in> set (rows (strip_columns tbl))
              \<and> to_datetime pd (column (strip_columns tbl) dc) (cell_at r0 dc) = Some t
              \<and> to_numeric pd (cell_at r0 sc) = Some x
              \<and> (dc \<notin> {''Month'', ''MonthStart''} \<longrightarrow> cell_at r dc = Time t)
              \<and> (sc \<notin> {''Month'', ''MonthStart''} \<longrightarrow> cell_at r sc = Num x)"
    by (cases p) simp
next
  fix p assume p: "p \<in> set (rows (strip_columns tbl))"
  obtain i r0 where pq: "p = (i, r0)" by (cases p)
  have dist: "distinct (map fst (rows (strip_columns tbl)))"
    using assms(2) by (simp add: fst_rows_strip_columns)
  have "i \<notin> fst ` set (rows d)" if np: "\<not> parses pd (strip_columns tbl) dc sc r0"
  proof
    assume "i \<in> fst ` set (rows d)"
    then obtain r where "(i, r) \<in> set (rows d)" by auto
    from load_clean_row_origin [OF assms(1,3) this]
    obtain r0' t x where r0': "(i, r0') \<in> set (rows (strip_columns tbl))"
      and "to_datetime pd (column (strip_columns tbl) dc) (cell_at r0' dc) = Some t"
      and "to_numeric pd (cell_at r0' sc) = Some x"
      by blast
    then have ok: "parses pd (strip_columns tbl) dc sc r0'"
      by (simp add: parses_def)
    from dist r0' p pq have "r0' = r0"
      by (meson eq_key_imp_eq_value)
    with ok np show False by simp
  qed
  with pq show "case p of (i, r0) \<Rightarrow>
      \<not> parses pd (strip_columns tbl) dc sc r0 \<longrightarrow> i \<notin> fst ` set (rows d)"
    by simp
qed


text \<open>The theorem on a three-row file with one bad date and one bad score.\<close>

theorem load_clean_keeps_parsed_rows_only_witness:
  "read_csv (demo_pandas demo_parse) ''scores.csv'' = Inr demo_parse
   \<and> distinct (map fst (rows demo_parse))
   \<and> (\<exists>d. load_clean (demo_pandas demo_parse) ''scores.csv'' DATE_COL SCORE_COL SCHOOLYEAR_COL None
            = Inr d
          \<and> map fst (rows d) = [0]
          \<and> \<not> parses (demo_pandas demo_parse) (strip_columns demo_parse) DATE_COL SCORE_COL
                 [(''ObservationDateTime'', Str ''not a date''), (''ObservationScore'', Num 3)]
          \<and> 1 \<notin> fst ` set (rows d))"
proof -
  let ?pd = "demo_pandas demo_parse"
  let ?d = "\<lparr>columns = [''ObservationDateTime'', ''ObservationScore'', ''Month'', ''MonthStart''],
             rows = [(0, [(''ObservationDateTime'', Time (2023, 11, 5, 0)),
                          (''ObservationScore'', Num 4), (''Month'', Str ''2023-11''),
                          (''MonthStart'', Time (2023, 11, 1, 0))])]\<rparr>"
  let ?r1 = "[(''ObservationDateTime'', Str ''not a date''), (''ObservationScore'', Num 3)]"
  have h1: "read_csv ?pd ''scores.csv'' = Inr demo_parse"
    by (simp add: demo_pandas_def)
  have h2: "distinct (map fst (rows demo_parse))"
    by (simp add: demo_parse_def)
  have h3: "load_clean ?pd ''scores.csv'' DATE_COL SCORE_COL SCHOOLYEAR_COL None = Inr ?d"
    by code_simp
  have mem: "(1, ?r1) \<in> set (rows (strip_columns demo_parse))"
    by code_simp
  have np: "\<not> parses ?pd (strip_columns demo_parse) DATE_COL SCORE_COL ?r1"
    by code_simp
  from load_clean_keeps_parsed_rows_only [OF h1 h2 h3]
  have "\<forall>(i, r0) \<in> set (rows (strip_columns demo_parse)).
          \<not> parses ?pd (strip_columns demo_parse) DATE_COL SCORE_COL r0 \<longrightarrow> i \<notin> fst ` set (rows ?d)"
    by (rule conjunct2)
  from bspec [OF this mem] np have out: "1 \<notin> fst ` set (rows ?d)"
    by blast
  have idx: "map fst (rows ?d) = [0]" by simp
  show ?thesis
    by (intro conjI exI [of _ ?d]; fact h1 h2 h3 idx np out)
qed


section \<open>Claims about the category normalizer\<close>

text \<open>
  C8.  The reference \<open>first_match_sub\<close> is the single-pass first-match-wins function: it
  goes through the rules once, in order, and the first rule whose pattern matches the raw
  label replaces it; no other rule is applied.  For every raw label the ordered sequence of
  regex replacements computes the same value as this reference, and the replacement text of
  a rule is never matched by a later rule (\<open>cascade_free\<close>).  For every label that does
  not end in a line feed that value is the matching rule's group name itself
  (\<open>first_match_wins\<close>).
\<close>

theorem eval_group_label_first_match:
  "eval_group_label s = first_match_sub eval_group_rules s
   \<and> cascade_free eval_group_rules
   \<and> (s = [] \<or> last s \<noteq> CHR 0x0A
        \<longrightarrow> eval_group_label s = first_match_wins eval_group_rules s)"
proof -
  have e: "eval_group_label s = first_match_sub eval_group_rules s"
    unfolding eval_group_label_def
    by (rule replace_regex_first_match [OF anchored_rules cascade_free_rules])
  from first_match_sub_wins [OF anchored_rules, of s] e cascade_free_rules
  show ?thesis by simp
qed

text \<open>The theorem at a label that three rules match.\<close>

theorem eval_group_label_first_match_witness:
  "last ''Teacher Announced, then Unannounced Domain 4'' \<noteq> CHR 0x0A
   \<and> eval_group_label ''Teacher Announced, then Unannounced Domain 4''
       = first_match_wins eval_group_rules ''Teacher Announced, then Unannounced Domain 4''
   \<and> first_match_wins eval_group_rules ''Teacher Announced, then Unannounced Domain 4''
       = ''Teacher (Announced)''"
proof -
  have n: "last ''Teacher Announced, then Unannounced Domain 4'' \<noteq> CHR 0x0A"
    by simp
  have "eval_group_label ''Teacher Announced, then Unannounced Domain 4''
          = first_match_wins eval_group_rules ''Teacher Announced, then Unannounced Domain 4''"
    using eval_group_label_first_match [of "''Teacher Announced, then Unannounced Domain 4''"] n
    by blast
  moreover have "first_match_wins eval_group_rules ''Teacher Announced, then Unannounced Domain 4''
       = ''Teacher (Announced)''"
    by code_simp
  ultimately show ?thesis using n by blast
qed


section \<open>Claims about the school-year filter and about missing columns\<close>

text \<open>
  C4 (as amended).  For a non-empty filter value and a school-year column that exists and is
  not one of the derived columns \<open>Month\<close> and \<open>MonthStart\<close>: whenever the load without
  a filter succeeds with table \<open>d0\<close>, the load with the filter succeeds too, and its table holds
  exactly the rows of \<open>d0\<close> whose school-year value stringifies to the filter.  So every
  school-year value of the result equals the filter string, and a value that no row has gives
  an empty table, not an error.
\<close>

theorem load_clean_school_year_filter:
  assumes lc0: "load_clean pd path dc sc yc None = Inr d0"
    and yc: "yc \<in> set (columns d0)" and yn: "yc \<notin> {''Month'', ''MonthStart''}"
    and f: "f \<noteq> []"
  shows "\<exists>d. load_clean pd path dc sc yc (Some f) = Inr d
           \<and> d = select_rows d0 (\<lambda>r. astype_str pd yc (cell_at r yc) = f)
           \<and> (\<forall>(i, r) \<in> set (rows d). astype_str pd yc (cell_at r yc) = f)
           \<and> ((\<forall>(i, r) \<in> set (rows d0). astype_str pd yc (cell_at r yc) \<noteq> f) \<longrightarrow> rows d = [])"
proof -
  from lc0 obtain tbl where rd: "read_csv pd path = Inr tbl" by (rule load_clean_read_csv)
  let ?P = "parsed_frame pd tbl dc sc"
  let ?K = "\<lambda>r. astype_str pd yc (cell_at r yc) = f"
  have none: "school_year_step pd ?P yc None = ?P"
    by (simp add: school_year_step_def truthy_def)
  from lc0 have cols: "dc \<in> set (columns (strip_columns tbl))" "sc \<in> set (columns (strip_columns tbl))"
    and neq: "dc \<noteq> sc"
    and ok: "\<forall>c \<in> set (column (add_month ?P dc) ''Month''). month_start_of c \<noteq> None"
    and d0: "d0 = add_month_start (add_month ?P dc)"
    unfolding load_clean_unfold [OF rd] none by (auto split: if_splits)
  from yc yn d0 have "yc \<in> set (columns ?P)"
    using columns_derived [of ?P dc] by auto
  with f have some: "school_year_step pd ?P yc (Some f) = select_rows ?P ?K"
    by (simp add: school_year_step_def truthy_def py_str_def filter_school_year_def)
  have "set (column (add_month (select_rows ?P ?K) dc) ''Month'')
          \<subseteq> set (column (add_month ?P dc) ''Month'')"
    by (auto simp: column_add_month)
  with ok have ok': "\<forall>c \<in> set (column (add_month (select_rows ?P ?K) dc) ''Month'').
                       month_start_of c \<noteq> None"
    by blast
  from yn have "add_month_start (add_month (select_rows ?P ?K) dc) = select_rows d0 ?K"
    unfolding d0 by (intro select_rows_derived [where P = "\<lambda>c. astype_str pd yc c = f"]) auto
  with cols neq ok' have "load_clean pd path dc sc yc (Some f) = Inr (select_rows d0 ?K)"
    unfolding load_clean_unfold [OF rd] some by auto
  then show ?thesis
    by (auto simp: filter_empty_conv)
qed

text \<open>The theorem on a two-row file, filtered by a school year that one row has.\<close>

theorem load_clean_school_year_filter_witness:
  "\<exists>d0 d. load_clean (demo_pandas demo_years) ''scores.csv'' DATE_COL SCORE_COL SCHOOLYEAR_COL None
             = Inr d0
         \<and> SCHOOLYEAR_COL \<in> set (columns d0)
         \<and> SCHOOLYEAR_COL \<noteq> ''Month'' \<and> SCHOOLYEAR_COL \<noteq> ''MonthStart''
         \<and> ''2023-24'' \<noteq> []
         \<and> load_clean (demo_pandas demo_years) ''scores.csv'' DATE_COL SCORE_COL SCHOOLYEAR_COL
              (Some ''2023-24'') = Inr d
         \<and> map fst (rows d0) = [0, 1]
         \<and> map fst (rows d) = [0]
         \<and> column d SCHOOLYEAR_COL = [Str ''2023-24'']"
proof -
  let ?pd = "demo_pandas demo_years"
  let ?full = "\<lparr>columns = [''ObservationDateTime'', ''ObservationScore'', ''SchoolYear'', ''Month'',
                          ''MonthStart''],
              rows = [(0, [(''ObservationDateTime'', Time (2023, 11, 5, 0)),
                           (''ObservationScore'', Num 4), (''SchoolYear'', Str ''2023-24''),
                           (''Month'', Str ''2023-11''), (''MonthStart'', Time (2023, 11, 1, 0))]),
                      (1, [(''ObservationDateTime'', Time (2023, 1, 10, 0)),
                           (''ObservationScore'', Num 3), (''SchoolYear'', Str ''2022-23''),
                           (''Month'', Str ''2023-01''), (''MonthStart'', Time (2023, 1, 1, 0))])]\<rparr>"
  let ?sel = "select_rows ?full (\<lambda>r. astype_str ?pd SCHOOLYEAR_COL (cell_at r SCHOOLYEAR_COL) = ''2023-24'')"
  have h1: "load_clean ?pd ''scores.csv'' DATE_COL SCORE_COL SCHOOLYEAR_COL None = Inr ?full"
    by code_simp
  have h2: "SCHOOLYEAR_COL \<in> set (columns ?full)" by (simp add: SCHOOLYEAR_COL_def)
  have h3: "SCHOOLYEAR_COL \<notin> {''Month'', ''MonthStart''}" by (simp add: SCHOOLYEAR_COL_def)
  have h4: "''2023-24'' \<noteq> []" by simp
  from load_clean_school_year_filter [OF h1 h2 h3 h4]
  have c: "load_clean ?pd ''scores.csv'' DATE_COL SCORE_COL SCHOOLYEAR_COL (Some ''2023-24'') = Inr ?sel"
    by blast
  have i0: "map fst (rows ?full) = [0, 1]" by simp
  have i1: "map fst (rows ?sel) = [0]" by code_simp
  have i2: "column ?sel SCHOOLYEAR_COL = [Str ''2023-24'']" by code_simp
  from h3 have h3a: "SCHOOLYEAR_COL \<noteq> ''Month''" and h3b: "SCHOOLYEAR_COL \<noteq> ''MonthStart''"
    by auto
  show ?thesis
    by (intro conjI exI [of _ ?full] exI [of _ ?sel]; fact h1 h2 h3a h3b h4 c i0 i1 i2)
qed

text \<open>
  C4 as stated fails for the empty filter value: the guard \<open>if school_year_filter and ...\<close>
  treats the empty string as no filter, so every parsed row is kept although no row's school
  year is the empty string.
\<close>

theorem load_clean_empty_filter_keeps_all_rows:
  "load_clean (demo_pandas demo_years) ''scores.csv'' DATE_COL SCORE_COL SCHOOLYEAR_COL (Some [])
     = Inr \<lparr>columns = [''ObservationDateTime'', ''ObservationScore'', ''SchoolYear'', ''Month'',
                        ''MonthStart''],
            rows = [(0, [(''ObservationDateTime'', Time (2023, 11, 5, 0)),
                         (''ObservationScore'', Num 4), (''SchoolYear'', Str ''2023-24''),
                         (''Month'', Str ''2023-11''), (''MonthStart'', Time (2023, 11, 1, 0))]),
                    (1, [(''ObservationDateTime'', Time (2023, 1, 10, 0)),
                         (''ObservationScore'', Num 3), (''SchoolYear'', Str ''2022-23''),
                         (''Month'', Str ''2023-01''), (''MonthStart'', Time (2023, 1, 1, 0))])]\<rparr>
   \<and> SCHOOLYEAR_COL \<in> set (map strip (columns demo_years))
   \<and> astype_str (demo_pandas demo_years) SCHOOLYEAR_COL (Str ''2023-24'') \<noteq> []
   \<and> astype_str (demo_pandas demo_years) SCHOOLYEAR_COL (Str ''2022-23'') \<noteq> []"
  by code_simp

text \<open>
  C6.  When the date alias or the score alias is not among the (stripped) column names of the
  input table, the loader raises the configuration error \<open>ValueError\<close>, the pipeline stops
  with it, and the file system differs from the initial one only by the two output
  directories: no figure and no summary table is written.
\<close>

theorem main_missing_column_writes_nothing:
  assumes "read_csv pd (arg_csv a) = Inr tbl"
    and "arg_date_col a \<notin> set (map strip (columns tbl))
         \<or> arg_score_col a \<notin> set (map strip (columns tbl))"
  shows "load_clean pd (arg_csv a) (arg_date_col a) (arg_score_col a) (arg_schoolyear_col a)
           (arg_school_year a) = Inl ValueError
         \<and> main pd a st = (ensure_dirs st, Inl ValueError)
         \<and> files (fst (main pd a st)) = files st"
proof -
  from assms(2) have lc: "load_clean pd (arg_csv a) (arg_date_col a) (arg_score_col a)
      (arg_schoolyear_col a) (arg_school_year a) = Inl ValueError"
    unfolding load_clean_unfold [OF assms(1)] by (auto simp: strip_columns_def)
  then have "main pd a st = (ensure_dirs st, Inl ValueError)"
    by (simp add: main_def Let_def)
  with lc show ?thesis by (simp add: ensure_dirs_def)
qed

text \<open>The theorem on a file that has no score column, run with the default arguments.\<close>

theorem main_missing_column_writes_nothing_witness:
  "read_csv (demo_pandas demo_no_score) (arg_csv default_args) = Inr demo_no_score
   \<and> arg_score_col default_args \<notin> set (map strip (columns demo_no_score))
   \<and> main (demo_pandas demo_no_score) default_args \<lparr>dirs = [], files = []\<rparr>
       = (\<lparr>dirs = [''outputs'', ''figures_evals''], files = []\<rparr>, Inl ValueError)"
proof -
  let ?pd = "demo_pandas demo_no_score"
  have h1: "read_csv ?pd (arg_csv default_args) = Inr demo_no_score"
    by (simp add: demo_pandas_def)
  have h2: "arg_score_col default_args \<notin> set (map strip (columns demo_no_score))"
    by code_simp
  then have h2': "arg_date_col default_args \<notin> set (map strip (columns demo_no_score))
         \<or> arg_score_col default_args \<notin> set (map strip (columns demo_no_score))"
    by (rule disjI2)
  from main_missing_column_writes_nothing [OF h1 h2', of "\<lparr>dirs = [], files = []\<rparr>"]
  have "main ?pd default_args \<lparr>dirs = [], files = []\<rparr>
          = (ensure_dirs \<lparr>dirs = [], files = []\<rparr>, Inl ValueError)"
    by (rule conjunct1 [OF conjunct2])
  moreover have "ensure_dirs \<lparr>dirs = [], files = []\<rparr> = \<lparr>dirs = [''outputs'', ''figures_evals''], files = []\<rparr>"
    by code_simp
  ultimately have c: "main ?pd default_args \<lparr>dirs = [], files = []\<rparr>
       = (\<lparr>dirs = [''outputs'', ''figures_evals''], files = []\<rparr>, Inl ValueError)"
    by simp
  show ?thesis by (intro conjI; fact h1 h2 c)
qed

section \<open>Claims about category normalization of tables\<close>

text \<open>
  C10 (as amended).  When the evaluation-type column exists, normalization returns a table
  with the same rows in the same order (same indices), in which every column other than
  \<open>EvalGroup\<close> holds the values it held, and column \<open>EvalGroup\<close> holds each row's group.
  When the input has no column of that name the column is appended (each row gets one more
  cell at its end); when it has one, that column is overwritten.
\<close>

theorem make_eval_group_adds_group_column:
  assumes "et \<in> set (columns d)"
  shows "\<exists>g. make_eval_group pd d et = Inr g
           \<and> rows g = map (\<lambda>(i, r). (i, AList.update ''EvalGroup'' (group_of pd et r) r)) (rows d)
           \<and> map fst (rows g) = map fst (rows d)
           \<and> (\<forall>c. c \<noteq> ''EvalGroup'' \<longrightarrow> column g c = column d c)
           \<and> column g ''EvalGroup'' = map (\<lambda>(i, r). group_of pd et r) (rows d)
           \<and> (''EvalGroup'' \<notin> set (columns d) \<longrightarrow> columns g = columns d @ [''EvalGroup''])
           \<and> (''EvalGroup'' \<in> set (columns d) \<longrightarrow> columns g = columns d)
           \<and> (\<forall>(i, r) \<in> set (rows d). ''EvalGroup'' \<notin> fst ` set r \<longrightarrow>
                 AList.update ''EvalGroup'' (group_of pd et r) r = r @ [(''EvalGroup'', group_of pd et r)])"
  unfolding make_eval_group_Inr [OF assms]
  by (auto simp: column_def comp_def split_def update_absent)

text \<open>The theorem on a two-row table without a column \<open>EvalGroup\<close>.\<close>

theorem make_eval_group_adds_group_column_witness:
  "ETYPE_COL \<in> set (columns demo_types)
   \<and> ''EvalGroup'' \<notin> set (columns demo_types)
   \<and> (\<exists>g. make_eval_group (demo_pandas demo_types) demo_types ETYPE_COL = Inr g
          \<and> columns g = columns demo_types @ [''EvalGroup'']
          \<and> map fst (rows g) = map fst (rows demo_types)
          \<and> column g ''ObservationScore'' = column demo_types ''ObservationScore''
          \<and> column g ETYPE_COL = column demo_types ETYPE_COL
          \<and> column g ''EvalGroup'' = [Str ''Teacher (Unannounced)'', Str ''Volunteer Review''])"
proof -
  let ?pd = "demo_pandas demo_types"
  have h: "ETYPE_COL \<in> set (columns demo_types)" by code_simp
  have n: "''EvalGroup'' \<notin> set (columns demo_types)" by code_simp
  from make_eval_group_adds_group_column [OF h, of ?pd]
  obtain g where g: "make_eval_group ?pd demo_types ETYPE_COL = Inr g"
    and idx: "map fst (rows g) = map fst (rows demo_types)"
    and other: "\<forall>c. c \<noteq> ''EvalGroup'' \<longrightarrow> column g c = column demo_types c"
    and grp: "column g ''EvalGroup'' = map (\<lambda>(i, r). group_of ?pd ETYPE_COL r) (rows demo_types)"
    and cols: "''EvalGroup'' \<notin> set (columns demo_types) \<longrightarrow> columns g = columns demo_types @ [''EvalGroup'']"
    by blast
  from cols n have c1: "columns g = columns demo_types @ [''EvalGroup'']" by blast
  from other have c2: "column g ''ObservationScore'' = column demo_types ''ObservationScore''"
    by simp
  have "ETYPE_COL \<noteq> ''EvalGroup''" by code_simp
  with other have c3: "column g ETYPE_COL = column demo_types ETYPE_COL" by blast
  have l1: "eval_group_label ''Teacher Unannounced Observation Domain 2'' = ''Teacher (Unannounced)''"
    by code_simp
  have l2: "eval_group_label ''Volunteer Review'' = ''Volunteer Review''"
    by code_simp
  have "map (\<lambda>(i, r). group_of ?pd ETYPE_COL r) (rows demo_types)
          = [Str ''Teacher (Unannounced)'', Str ''Volunteer Review'']"
    by (simp add: demo_types_def group_of_def astype_str_def cell_at_def ETYPE_COL_def l1 l2)
  with grp have c4: "column g ''EvalGroup'' = [Str ''Teacher (Unannounced)'', Str ''Volunteer Review'']"
    by simp
  show ?thesis
    by (intro conjI exI [of _ g]; fact h n g c1 idx c2 c3 c4)
qed

text \<open>
  C10 as stated fails for a table that already has a column \<open>EvalGroup\<close>: its values are
  replaced by the derived groups, and no column is added.
\<close>

theorem make_eval_group_overwrites_existing_column:
  "ETYPE_COL \<in> set (columns demo_groups)
   \<and> column demo_groups ''EvalGroup'' = [Str ''legacy'', Str ''legacy'']
   \<and> make_eval_group (demo_pandas demo_groups) demo_groups ETYPE_COL =
       Inr \<lparr>columns = [''ObservationDateTime'', ''ObservationScore'', ''EvaluationType'', ''EvalGroup''],
             rows = [(0, [(''ObservationDateTime'', Str ''2023-11-05''), (''ObservationScore'', Num 4),
                          (''EvaluationType'', Str ''Teacher Unannounced Observation Domain 2''),
                          (''EvalGroup'', Str ''Teacher (Unannounced)'')]),
                     (1, [(''ObservationDateTime'', Str ''2023-12-10''), (''ObservationScore'', Num 3),
                          (''EvaluationType'', Str ''Volunteer Review''),
                          (''EvalGroup'', Str ''Volunteer Review'')])]\<rparr>"
proof -
  have h: "ETYPE_COL \<in> set (columns demo_groups)"
    by (simp add: demo_groups_def ETYPE_COL_def)
  have old: "column demo_groups ''EvalGroup'' = [Str ''legacy'', Str ''legacy'']"
    by (simp add: demo_groups_def column_def cell_at_def)
  have l1: "eval_group_label ''Teacher Unannounced Observation Domain 2'' = ''Teacher (Unannounced)''"
    by code_simp
  have l2: "eval_group_label ''Volunteer Review'' = ''Volunteer Review''"
    by code_simp
  have new: "make_eval_group (demo_pandas demo_groups) demo_groups ETYPE_COL =
       Inr \<lparr>columns = [''ObservationDateTime'', ''ObservationScore'', ''EvaluationType'', ''EvalGroup''],
             rows = [(0, [(''ObservationDateTime'', Str ''2023-11-05''), (''ObservationScore'', Num 4),
                          (''EvaluationType'', Str ''Teacher Unannounced Observation Domain 2''),
                          (''EvalGroup'', Str ''Teacher (Unannounced)'')]),
                     (1, [(''ObservationDateTime'', Str ''2023-12-10''), (''ObservationScore'', Num 3),
                          (''EvaluationType'', Str ''Volunteer Review''),
                          (''EvalGroup'', Str ''Volunteer Review'')])]\<rparr>"
    unfolding make_eval_group_Inr [OF h]
    by (simp add: demo_groups_def group_of_def astype_str_def cell_at_def ETYPE_COL_def l1 l2)
  from h old new show ?thesis by blast
qed

text \<open>
  C1.  The group column holds, for every row, the normalizer applied to the row's raw label.
  The normalizer maps ``Teacher Unannounced Observation Domain 2'' to
  ``Teacher (Unannounced)'', and maps a label that no rule matches to itself.
\<close>

theorem make_eval_group_labels:
  assumes "make_eval_group pd d et = Inr g"
  shows "column g ''EvalGroup''
           = map (\<lambda>c. Str (eval_group_label (astype_str pd et c))) (column d et)
         \<and> eval_group_label ''Teacher Unannounced Observation Domain 2'' = ''Teacher (Unannounced)''
         \<and> ((\<forall>r \<in> set eval_group_rules. \<not> re_search (fst r) s) \<longrightarrow> eval_group_label s = s)"
proof -
  from assms have et: "et \<in> set (columns d)"
    by (auto simp: make_eval_group_def split: if_splits)
  from assms have "column g ''EvalGroup''
           = map (\<lambda>c. Str (eval_group_label (astype_str pd et c))) (column d et)"
    unfolding make_eval_group_Inr [OF et]
    by (auto simp: column_def comp_def split_def group_of_def)
  moreover have "eval_group_label ''Teacher Unannounced Observation Domain 2'' = ''Teacher (Unannounced)''"
    by code_simp
  moreover have "(\<forall>r \<in> set eval_group_rules. \<not> re_search (fst r) s) \<longrightarrow> eval_group_label s = s"
    unfolding eval_group_label_def by (auto intro: replace_regex_no_match)
  ultimately show ?thesis by blast
qed

text \<open>The theorem on a two-row table, with the unmatched label ``Volunteer Review''.\<close>

theorem make_eval_group_labels_witness:
  "(\<exists>g. make_eval_group (demo_pandas demo_types) demo_types ETYPE_COL = Inr g
        \<and> column g ''EvalGroup'' = [Str ''Teacher (Unannounced)'', Str ''Volunteer Review''])
   \<and> list_all (\<lambda>r. \<not> re_search (fst r) ''Volunteer Review'') eval_group_rules
   \<and> eval_group_label ''Volunteer Review'' = ''Volunteer Review''"
proof -
  let ?pd = "demo_pandas demo_types"
  let ?g = "\<lparr>columns = [''ObservationScore'', ''EvaluationType'', ''EvalGroup''],
      rows = [(0, [(''ObservationScore'', Num 4),
                   (''EvaluationType'', Str ''Teacher Unannounced Observation Domain 2''),
                   (''EvalGroup'', Str ''Teacher (Unannounced)'')]),
              (1, [(''ObservationScore'', Num 3), (''EvaluationType'', Str ''Volunteer Review''),
                   (''EvalGroup'', Str ''Volunteer Review'')])]\<rparr>"
  have l1: "eval_group_label ''Teacher Unannounced Observation Domain 2'' = ''Teacher (Unannounced)''"
    by code_simp
  have l2: "eval_group_label ''Volunteer Review'' = ''Volunteer Review''"
    by code_simp
  have et: "ETYPE_COL \<in> set (columns demo_types)"
    by (simp add: demo_types_def ETYPE_COL_def)
  have h: "make_eval_group ?pd demo_types ETYPE_COL = Inr ?g"
    unfolding make_eval_group_Inr [OF et]
    by (simp add: demo_types_def group_of_def astype_str_def cell_at_def ETYPE_COL_def l1 l2)
  have nm: "list_all (\<lambda>r. \<not> re_search (fst r) ''Volunteer Review'') eval_group_rules"
    by code_simp
  then have nm': "\<forall>r \<in> set eval_group_rules. \<not> re_search (fst r) ''Volunteer Review''"
    by (simp add: list_all_iff)
  note T = make_eval_group_labels [OF h, of "''Volunteer Review''"]
  from T nm' have c1: "eval_group_label ''Volunteer Review'' = ''Volunteer Review''"
    by blast
  from T have "column ?g ''EvalGroup''
      = map (\<lambda>c. Str (eval_group_label (astype_str ?pd ETYPE_COL c))) (column demo_types ETYPE_COL)"
    by (rule conjunct1)
  also have "\<dots> = [Str ''Teacher (Unannounced)'', Str ''Volunteer Review'']"
    by (simp add: demo_types_def column_def astype_str_def cell_at_def ETYPE_COL_def l1 l2)
  finally have c2: "column ?g ''EvalGroup'' = [Str ''Teacher (Unannounced)'', Str ''Volunteer Review'']" .
  show ?thesis
    by (intro conjI exI [of _ ?g]; fact h c2 nm c1)
qed

end
